theory Spec2Isabelle
  imports Main
begin

section \<open>The component table and the build order\<close>

text \<open>
  The orchestrator is one Python module, \<^verbatim>\<open>orchestrate_devtools_implementation.py\<close>.
  Its data are two module constants: the dictionary \<^verbatim>\<open>COMPONENTS\<close> (name to a
  dictionary of six fixed keys) and the list of lists \<^verbatim>\<open>BUILD_ORDER\<close>.

  Each value of \<^verbatim>\<open>COMPONENTS\<close> has the same six keys, so it is a record. The Python
  key \<^verbatim>\<open>"type"\<close> is the field \<open>ctype\<close>. The dictionary itself is an association
  list in insertion order, which is the order \<^verbatim>\<open>COMPONENTS.items()\<close> iterates in;
  \<^verbatim>\<open>COMPONENTS[name]\<close> is \<open>map_of COMPONENTS name\<close>.
\<close>

record component_info =
  level :: int
  ctype :: string
  description :: string
  estimated_tokens :: int
  dependencies :: "string list"
  tech_stack :: string

definition COMPONENTS :: "(string \<times> component_info) list" where
  "COMPONENTS = [
     (''cdp_types'', \<lparr>
        level = 0,
        ctype = ''base'',
        description = ''CDP protocol types, events, and error definitions'',
        estimated_tokens = 30000,
        dependencies = [],
        tech_stack = ''Rust 2021, serde, serde_json, serde_repr''\<rparr>),
     (''cdp_server'', \<lparr>
        level = 1,
        ctype = ''core'',
        description = ''WebSocket server and session management'',
        estimated_tokens = 40000,
        dependencies = [''cdp_types''],
        tech_stack = ''Rust 2021, tokio, tokio-tungstenite, async-trait''\<rparr>),
     (''protocol_handler'', \<lparr>
        level = 1,
        ctype = ''core'',
        description = ''CDP message routing and domain registry'',
        estimated_tokens = 35000,
        dependencies = [''cdp_types''],
        tech_stack = ''Rust 2021, serde_json, dashmap, async-trait''\<rparr>),
     (''dom_domain'', \<lparr>
        level = 2,
        ctype = ''feature'',
        description = ''DOM and CSS domain implementations'',
        estimated_tokens = 60000,
        dependencies = [''cdp_types'', ''protocol_handler''],
        tech_stack = ''Rust 2021, DOM bridge integration''\<rparr>),
     (''network_domain'', \<lparr>
        level = 2,
        ctype = ''feature'',
        description = ''Network monitoring and interception'',
        estimated_tokens = 55000,
        dependencies = [''cdp_types'', ''protocol_handler''],
        tech_stack = ''Rust 2021, Network stack bridge integration''\<rparr>),
     (''runtime_debugger'', \<lparr>
        level = 2,
        ctype = ''feature'',
        description = ''JavaScript Runtime and Debugger domains'',
        estimated_tokens = 70000,
        dependencies = [''cdp_types'', ''protocol_handler''],
        tech_stack = ''Rust 2021, JS runtime bridge integration, breakpoints''\<rparr>),
     (''profiler_domains'', \<lparr>
        level = 2,
        ctype = ''feature'',
        description = ''Performance profiling and heap analysis'',
        estimated_tokens = 60000,
        dependencies = [''cdp_types'', ''protocol_handler''],
        tech_stack = ''Rust 2021, CPU/memory profiling, timeline recording''\<rparr>),
     (''console_storage'', \<lparr>
        level = 2,
        ctype = ''feature'',
        description = ''Console REPL and storage inspection'',
        estimated_tokens = 45000,
        dependencies = [''cdp_types'', ''protocol_handler''],
        tech_stack = ''Rust 2021, REPL, logging infrastructure''\<rparr>),
     (''browser_page_domains'', \<lparr>
        level = 2,
        ctype = ''feature'',
        description = ''Browser, Page, Security, and Emulation domains'',
        estimated_tokens = 50000,
        dependencies = [''cdp_types'', ''protocol_handler''],
        tech_stack = ''Rust 2021, multiple CDP domains''\<rparr>),
     (''devtools_component'', \<lparr>
        level = 3,
        ctype = ''integration'',
        description = ''Main DevTools orchestration and integration'',
        estimated_tokens = 50000,
        dependencies = [
          ''cdp_types'', ''cdp_server'', ''protocol_handler'',
          ''dom_domain'', ''network_domain'', ''runtime_debugger'',
          ''profiler_domains'', ''console_storage'', ''browser_page_domains''],
        tech_stack = ''Rust 2021, BrowserComponent trait, integration''\<rparr>),
     (''devtools_api'', \<lparr>
        level = 4,
        ctype = ''application'',
        description = ''Public API and configuration'',
        estimated_tokens = 15000,
        dependencies = [''devtools_component''],
        tech_stack = ''Rust 2021, public API, DevToolsConfig''\<rparr>)]"

definition BUILD_ORDER :: "string list list" where
  "BUILD_ORDER = [
     [''cdp_types''],
     [''cdp_server'', ''protocol_handler''],
     [''dom_domain'', ''network_domain'', ''runtime_debugger'',
      ''profiler_domains'', ''console_storage'', ''browser_page_domains''],
     [''devtools_component''],
     [''devtools_api'']]"

text \<open>
  \<^verbatim>\<open>return [name for name, info in COMPONENTS.items() if info["level"] == level]\<close>
\<close>

definition get_components_at_level :: "int \<Rightarrow> string list" where
  "get_components_at_level lv = map fst (filter (\<lambda>(name, info). level info = lv) COMPONENTS)"

subsection \<open>What the table is checked against\<close>

text \<open>
  The level a component's dependencies give it: 0 with no dependency, otherwise one more
  than the largest level among them. A dependency that is no key of the table has no
  level, and then neither has the component (\<open>None\<close>).
\<close>

fun max_level :: "(string \<times> component_info) list \<Rightarrow> string list \<Rightarrow> int option" where
  "max_level tbl [] = None"
| "max_level tbl [d] = map_option level (map_of tbl d)"
| "max_level tbl (d # ds) =
     (case (map_of tbl d, max_level tbl ds) of
        (Some i, Some m) \<Rightarrow> Some (max (level i) m)
      | _ \<Rightarrow> None)"

definition derived_level :: "(string \<times> component_info) list \<Rightarrow> component_info \<Rightarrow> int option" where
  "derived_level tbl info =
     (if dependencies info = [] then Some 0
      else map_option (\<lambda>m. 1 + m) (max_level tbl (dependencies info)))"

text \<open>The index of the first set of a build order that holds a name.\<close>

fun set_index :: "string list list \<Rightarrow> string \<Rightarrow> nat option" where
  "set_index [] n = None"
| "set_index (l # ls) n = (if n \<in> set l then Some 0 else map_option Suc (set_index ls n))"

section \<open>Files, output and exceptions\<close>

text \<open>
  A \<^verbatim>\<open>pathlib.Path\<close> is the list of its segments below the root directory;
  \<^verbatim>\<open>p / "name"\<close> appends one segment. Every name the module joins is a plain
  identifier, so a segment that itself contains a separator is not given a meaning here.
\<close>

type_synonym path = "string list"

definition PROJECT_ROOT :: path where
  "PROJECT_ROOT = [''home'', ''user'', ''Corten-DevTools'']"

definition SPEC_FILE :: path where
  "SPEC_FILE = PROJECT_ROOT @ [''devtools-component-specification.md'']"

text \<open>
  The exceptions the module can raise. All of them are subclasses of
  \<^verbatim>\<open>Exception\<close>, which is what \<^verbatim>\<open>main\<close> catches.
\<close>

datatype error =
    FileNotFoundError path
  | FileExistsError path
  | NotADirectoryError path
  | IsADirectoryError path
  | JSONDecodeError
  | KeyError string
  | TypeError
  | UnboundLocalError string
  | UnicodeEncodeError

text \<open>
  A Python \<^verbatim>\<open>str\<close> that comes out of a file is the list of its code points, which is
  more than the characters a \<open>string\<close> of HOL has: \<^verbatim>\<open>json.load\<close> turns the
  escape of a lone surrogate, such as the code point D800, into a \<^verbatim>\<open>str\<close> of that one
  code point. \<open>codes\<close> gives the code points of a constant of the module.
\<close>

type_synonym pystr = "nat list"

definition codes :: "string \<Rightarrow> pystr" where
  "codes s = map of_char s"

definition is_surrogate :: "nat \<Rightarrow> bool" where
  "is_surrogate c = (0xD800 \<le> c \<and> c \<le> 0xDFFF)"

text \<open>
  A value \<^verbatim>\<open>json.load\<close> returns. An object is a Python dictionary: its keys are
  distinct and \<open>map_of\<close> looks one up. A finite float is \<open>JFloat m e\<close> for
  \<open>m * 2 ^ e\<close>; the parser also accepts \<^verbatim>\<open>NaN\<close>, \<^verbatim>\<open>Infinity\<close> and
  \<^verbatim>\<open>-Infinity\<close>.
\<close>

datatype json =
    JNull
  | JBool bool
  | JInt int
  | JFloat int int
  | JNaN
  | JInfinity
  | JNegInfinity
  | JStr pystr
  | JArr "json list"
  | JObj "(pystr \<times> json) list"

text \<open>
  Text is kept in the pieces an f-string builds it from: \<open>PLit t k\<close> is the \<open>k\<close>-th
  literal chunk of template \<open>t\<close> (the constant text between two replacement fields,
  counted from 0), the other pieces are the values of the replacement fields, \<open>PLen d\<close>
  being the length of the text \<open>d\<close>. Two texts with the same pieces are the same
  characters.
\<close>

datatype template = CLAUDE_MD | CONTRACT_YAML

datatype piece =
    PLit template nat
  | PStr string
  | PInt int
  | PPath path
  | PJson json
  | PErr error
  | PLen "piece list"

type_synonym doc = "piece list"

text \<open>
  One executed \<^verbatim>\<open>print\<close> (or \<^verbatim>\<open>traceback.print_exc\<close>): the line of the statement
  in the module, and the values its text interpolates.
\<close>

datatype msg = Print nat "piece list"

text \<open>
  Standard output is open and encodes as UTF-8, which the pictographs in the module's own
  messages need. Every text the module prints can then be encoded but one: a configuration
  value that is a \<^verbatim>\<open>str\<close> with a surrogate code point is interpolated as it is, and
  the encoder refuses it with \<^verbatim>\<open>UnicodeEncodeError\<close>. A list or a dictionary is
  interpolated through \<^verbatim>\<open>repr\<close>, which escapes such code points, and the other values
  are numbers, booleans and \<^verbatim>\<open>None\<close>. The names, descriptions and paths the module
  prints are its own constants or \<open>string\<close>s of HOL, which hold no surrogate.
  The error stream escapes what it cannot encode.
\<close>

definition printable :: "json \<Rightarrow> bool" where
  "printable v = (case v of JStr s \<Rightarrow> \<not> list_ex is_surrogate s | _ \<Rightarrow> True)"

definition piece_error :: "piece \<Rightarrow> error option" where
  "piece_error p =
     (case p of
        PJson v \<Rightarrow> if printable v then None else Some UnicodeEncodeError
      | _ \<Rightarrow> None)"

definition print_error :: "piece list \<Rightarrow> error option" where
  "print_error args =
     (case List.map_filter piece_error args of [] \<Rightarrow> None | e # es \<Rightarrow> Some e)"

text \<open>
  What the module sees of the machine: the directories, the regular files with their
  contents, and what \<^verbatim>\<open>open\<close> and \<^verbatim>\<open>json.load\<close> make of
  \<^verbatim>\<open>orchestration/orchestration-config.json\<close>, a file the module only reads: there is
  no such file, or the parser raises on it (\<open>NotJson\<close>, whatever the exception; the
  model names it \<^verbatim>\<open>JSONDecodeError\<close>), or it parses to a value.
  Permissions, links and a full disk are outside the model.
\<close>

datatype config_file = NoFile | NotJson | Json json

record filesystem =
  dirs :: "path set"
  files :: "path \<rightharpoonup> doc"
  config_json :: config_file

text \<open>
  A statement runs on a filesystem and gives an exception or a value, the filesystem it
  leaves (also when it raises) and what it printed. An expression that touches no file
  gives an exception or a value only, and \<open>lift\<close> makes a statement of it.
\<close>

type_synonym 'a action = "filesystem \<Rightarrow> (error + 'a) \<times> filesystem \<times> msg list"

definition lift :: "error + 'a \<Rightarrow> 'a action" where
  "lift r fs = (r, fs, [])"

definition return :: "'a \<Rightarrow> 'a action" where
  "return x = lift (Inr x)"

definition raise :: "error \<Rightarrow> 'a action" where
  "raise e = lift (Inl e)"

definition bind :: "'a action \<Rightarrow> ('a \<Rightarrow> 'b action) \<Rightarrow> 'b action" where
  "bind m f fs =
     (case m fs of
        (Inl e, fs', out) \<Rightarrow> (Inl e, fs', out)
      | (Inr x, fs', out) \<Rightarrow> (case f x fs' of (r, fs'', out') \<Rightarrow> (r, fs'', out @ out')))"

text \<open>A block of statements, run in order up to the first exception.\<close>

fun block :: "unit action list \<Rightarrow> unit action" where
  "block [] fs = (Inr (), fs, [])"
| "block (a # as) fs =
     (case a fs of
        (Inl e, fs', out) \<Rightarrow> (Inl e, fs', out)
      | (Inr _, fs', out) \<Rightarrow> (case block as fs' of (r, fs'', out') \<Rightarrow> (r, fs'', out @ out')))"

text \<open>\<^verbatim>\<open>for x in xs: body(x)\<close>\<close>

definition for_each :: "'a list \<Rightarrow> ('a \<Rightarrow> unit action) \<Rightarrow> unit action" where
  "for_each xs body = block (map body xs)"

text \<open>
  \<^verbatim>\<open>print\<close>: the whole text is encoded before any of it is written, so a print that
  raises has printed nothing.
\<close>

definition py_print :: "nat \<Rightarrow> piece list \<Rightarrow> unit action" where
  "py_print line args fs =
     (case print_error args of
        None \<Rightarrow> (Inr (), fs, [Print line args])
      | Some e \<Rightarrow> (Inl e, fs, []))"

text \<open>
  \<^verbatim>\<open>Path.write_text\<close> opens the file for writing, which creates or truncates it. The
  parent must be a directory and the path itself must not be one.
\<close>

definition write_text :: "path \<Rightarrow> doc \<Rightarrow> unit action" where
  "write_text p content fs =
     (if butlast p \<notin> dirs fs then
        (if butlast p \<in> dom (files fs) then raise (NotADirectoryError p) fs
         else raise (FileNotFoundError p) fs)
      else if p \<in> dirs fs then raise (IsADirectoryError p) fs
      else (Inr (), fs\<lparr>files := (files fs)(p \<mapsto> content)\<rparr>, []))"

text \<open>
  \<^verbatim>\<open>Path.mkdir(exist_ok=True)\<close>, without \<^verbatim>\<open>parents\<close>: an existing directory is
  accepted, an existing file is not, and the parent must be a directory.
\<close>

definition mkdir_exist_ok :: "path \<Rightarrow> unit action" where
  "mkdir_exist_ok p fs =
     (if butlast p \<notin> dirs fs then
        (if butlast p \<in> dom (files fs) then raise (NotADirectoryError p) fs
         else raise (FileNotFoundError p) fs)
      else if p \<in> dirs fs then (Inr (), fs, [])
      else if p \<in> dom (files fs) then raise (FileExistsError p) fs
      else (Inr (), fs\<lparr>dirs := insert p (dirs fs)\<rparr>, []))"

text \<open>
  \<^verbatim>\<open>v[key]\<close> with a key that is a string constant of the module: only a dictionary can
  be subscripted by one.
\<close>

fun getitem :: "json \<Rightarrow> string \<Rightarrow> error + json" where
  "getitem (JObj kvs) k =
     (case map_of kvs (codes k) of None \<Rightarrow> Inl (KeyError k) | Some v \<Rightarrow> Inr v)"
| "getitem _ k = Inl TypeError"

text \<open>\<^verbatim>\<open>sep.join(xs)\<close>\<close>

fun join :: "string \<Rightarrow> string list \<Rightarrow> string" where
  "join sep [] = []"
| "join sep [x] = x"
| "join sep (x # xs) = x @ sep @ join sep xs"

text \<open>
  \<^verbatim>\<open>str.title\<close> on ASCII text: a letter that follows a letter is lowered, any other
  letter is raised, and every other character is kept and ends the word.
\<close>

definition is_lower :: "char \<Rightarrow> bool" where
  "is_lower c = (97 \<le> (of_char c :: nat) \<and> (of_char c :: nat) \<le> 122)"

definition is_upper :: "char \<Rightarrow> bool" where
  "is_upper c = (65 \<le> (of_char c :: nat) \<and> (of_char c :: nat) \<le> 90)"

definition to_upper :: "char \<Rightarrow> char" where
  "to_upper c = (if is_lower c then char_of ((of_char c :: nat) - 32) else c)"

definition to_lower :: "char \<Rightarrow> char" where
  "to_lower c = (if is_upper c then char_of ((of_char c :: nat) + 32) else c)"

fun title_from :: "bool \<Rightarrow> string \<Rightarrow> string" where
  "title_from prev [] = []"
| "title_from prev (c # cs) =
     (if is_lower c \<or> is_upper c
      then (if prev then to_lower c else to_upper c) # title_from True cs
      else c # title_from False cs)"

definition title :: "string \<Rightarrow> string" where
  "title s = title_from False s"

section \<open>The functions of the module\<close>

text \<open>
  \<^verbatim>\<open>read_config\<close>: open the configuration file and parse it.
\<close>

definition read_config :: "json action" where
  "read_config fs =
     (case config_json fs of
        NoFile \<Rightarrow>
          raise (FileNotFoundError (PROJECT_ROOT @ [''orchestration'', ''orchestration-config.json''])) fs
      | NotJson \<Rightarrow> raise JSONDecodeError fs
      | Json j \<Rightarrow> return j fs)"

text \<open>
  \<^verbatim>\<open>generate_claude_md\<close>: the f-string has fifteen replacement fields between sixteen
  literal chunks. An empty joined dependency list is replaced by a fixed line.
\<close>

definition generate_claude_md :: "string \<Rightarrow> component_info \<Rightarrow> doc" where
  "generate_claude_md component_name component_info =
     (let joined = join [CHR 0x0A] (map (\<lambda>dep. ''- '' @ dep) (dependencies component_info));
          deps_list = (if joined = [] then ''- None (base component)'' else joined);
          titled = title (filter (\<lambda>c. c \<noteq> CHR ''_'') component_name)
      in [PLit CLAUDE_MD 0, PStr component_name,
          PLit CLAUDE_MD 1, PStr component_name,
          PLit CLAUDE_MD 2, PStr (ctype component_info),
          PLit CLAUDE_MD 3, PInt (level component_info),
          PLit CLAUDE_MD 4, PPath PROJECT_ROOT,
          PLit CLAUDE_MD 5, PStr (tech_stack component_info),
          PLit CLAUDE_MD 6, PStr (description component_info),
          PLit CLAUDE_MD 7, PStr deps_list,
          PLit CLAUDE_MD 8, PPath PROJECT_ROOT,
          PLit CLAUDE_MD 9, PStr component_name,
          PLit CLAUDE_MD 10, PStr component_name,
          PLit CLAUDE_MD 11, PStr component_name,
          PLit CLAUDE_MD 12, PStr titled,
          PLit CLAUDE_MD 13, PStr titled,
          PLit CLAUDE_MD 14, PStr component_name,
          PLit CLAUDE_MD 15])"

text \<open>
  \<^verbatim>\<open>create_component_structure\<close>: it writes \<^verbatim>\<open>CLAUDE.md\<close> into the component's
  directory, which it does not create.
\<close>

definition create_component_structure :: "string \<Rightarrow> component_info \<Rightarrow> unit action" where
  "create_component_structure component_name component_info =
     (let comp_dir = PROJECT_ROOT @ [''components''] @ [component_name];
          claude_md_content = generate_claude_md component_name component_info;
          claude_md_file = comp_dir @ [''CLAUDE.md'']
      in block [
           py_print 363 [PStr component_name],
           write_text claude_md_file claude_md_content,
           py_print 372 [PLen claude_md_content]])"

definition phase_2_component_creation :: "unit action" where
  "phase_2_component_creation =
     block [
       py_print 377 [], py_print 378 [], py_print 379 [],
       for_each COMPONENTS (\<lambda>(component_name, component_info).
         create_component_structure component_name component_info),
       py_print 384 [PInt (int (length COMPONENTS))],
       py_print 385 []]"

text \<open>The text of one contract: five replacement fields between six literal chunks.\<close>

definition contract_content :: "string \<Rightarrow> component_info \<Rightarrow> doc" where
  "contract_content component_name component_info =
     [PLit CONTRACT_YAML 0, PStr component_name,
      PLit CONTRACT_YAML 1, PStr (ctype component_info),
      PLit CONTRACT_YAML 2, PStr component_name,
      PLit CONTRACT_YAML 3, PStr (ctype component_info),
      PLit CONTRACT_YAML 4,
      PStr (if dependencies component_info \<noteq> []
            then join [CHR 0x0A] (map (\<lambda>dep. ''  - '' @ dep) (dependencies component_info))
            else ''  []''),
      PLit CONTRACT_YAML 5]"

text \<open>The body of the loop of \<^verbatim>\<open>phase_3_contracts\<close>.\<close>

definition write_contract :: "path \<Rightarrow> string \<Rightarrow> component_info \<Rightarrow> unit action" where
  "write_contract contracts_dir component_name component_info =
     (let contract_file = contracts_dir @ [component_name @ ''.yaml''] in
      block [
        write_text contract_file (contract_content component_name component_info),
        py_print 424 [PStr component_name]])"

definition phase_3_contracts :: "unit action" where
  "phase_3_contracts =
     (let contracts_dir = PROJECT_ROOT @ [''contracts''] in
      block [
        py_print 390 [], py_print 391 [], py_print 392 [],
        mkdir_exist_ok contracts_dir,
        for_each COMPONENTS (\<lambda>(component_name, component_info).
          write_contract contracts_dir component_name component_info),
        py_print 426 [PInt (int (length COMPONENTS))],
        py_print 427 []])"

text \<open>
  The body of the loop over \<^verbatim>\<open>enumerate(BUILD_ORDER)\<close> in
  \<^verbatim>\<open>phase_4_parallel_development\<close>. The inner loop variable \<^verbatim>\<open>comp\<close> is read
  after the inner loop: it then holds the last component of the level, or what an
  earlier level left in it, and it is unbound when no level before had a component.
  \<open>comp'\<close> is the variable as the level finds it.
\<close>

definition level_plan :: "json \<Rightarrow> nat \<Rightarrow> string option \<Rightarrow> string list \<Rightarrow> unit action" where
  "level_plan max_parallel level_idx comp' level_components =
     block [
       py_print 448 [PInt (int level_idx), PInt (int (length level_components))],
       py_print 449 [PStr (join '', '' level_components)],
       py_print 453 [PInt (int (length level_components)), PJson max_parallel],
       for_each level_components (\<lambda>c.
         case map_of COMPONENTS c of
           None \<Rightarrow> raise (KeyError c)
         | Some info \<Rightarrow> py_print 456 [PStr c, PStr (description info)]),
       py_print 458 [],
       (case (if level_components = [] then comp' else Some (last level_components)) of
          None \<Rightarrow> raise (UnboundLocalError ''comp'')
        | Some c \<Rightarrow> py_print 459 [PStr c]),
       py_print 460 [], py_print 461 [], py_print 462 []]"

fun build_levels :: "json \<Rightarrow> nat \<Rightarrow> string option \<Rightarrow> string list list \<Rightarrow> unit action" where
  "build_levels max_parallel level_idx comp' [] = return ()"
| "build_levels max_parallel level_idx comp' (level_components # rest) =
     block [
       level_plan max_parallel level_idx comp' level_components,
       build_levels max_parallel (Suc level_idx)
         (if level_components = [] then comp' else Some (last level_components)) rest]"

definition phase_4_parallel_development :: "unit action" where
  "phase_4_parallel_development =
     block [
       py_print 437 [], py_print 438 [], py_print 439 [],
       bind read_config (\<lambda>config.
       bind (lift (getitem config ''orchestration'')) (\<lambda>orchestration.
       bind (lift (getitem orchestration ''max_parallel_agents'')) (\<lambda>max_parallel.
         block [
           py_print 444 [PJson max_parallel],
           py_print 445 [PInt (int (length BUILD_ORDER))],
           build_levels max_parallel 0 None BUILD_ORDER,
           py_print 464 [], py_print 465 [], py_print 466 []])))]"

definition phase_5_integration_testing :: "unit action" where
  "phase_5_integration_testing =
     block (map (\<lambda>line. py_print line [])
       [471, 472, 473, 475, 476, 477, 478, 479, 481, 482, 483, 484, 485, 487])"

definition phase_6_completion_verification :: "unit action" where
  "phase_6_completion_verification =
     block (map (\<lambda>line. py_print line [])
       [492, 493, 494, 496, 497, 498, 499, 500, 501, 502, 504, 505, 506, 507, 508, 509, 511])"

text \<open>
  \<^verbatim>\<open>main\<close>: the banner is printed before the \<^verbatim>\<open>try\<close>; the phases run inside it;
  the value returned is the exit code of the process (\<^verbatim>\<open>sys.exit(main())\<close>).
\<close>

record outcome =
  exit_code :: int
  final_fs :: filesystem
  stdout :: "msg list"
  stderr :: "msg list"

definition banner :: "msg list" where
  "banner =
     [Print 516 [], Print 517 [], Print 518 [], Print 519 [],
      Print 520 [PPath PROJECT_ROOT],
      Print 521 [PPath SPEC_FILE],
      Print 522 [PInt (int (length COMPONENTS))],
      Print 523 [PInt (int (length BUILD_ORDER))]]"

definition try_body :: "unit action" where
  "try_body =
     block [
       py_print 527 [],
       phase_2_component_creation,
       phase_3_contracts,
       phase_4_parallel_development,
       phase_5_integration_testing,
       phase_6_completion_verification,
       block (map (\<lambda>line. py_print line [])
         [544, 545, 546, 547, 548, 549, 550, 551, 552, 553, 554, 555, 556])]"

definition main :: "filesystem \<Rightarrow> outcome" where
  "main fs =
     (case try_body fs of
        (Inr _, fs', out) \<Rightarrow>
          \<lparr>exit_code = 0, final_fs = fs', stdout = banner @ out, stderr = []\<rparr>
      | (Inl e, fs', out) \<Rightarrow>
          \<lparr>exit_code = 1, final_fs = fs', stdout = banner @ out,
           stderr = [Print 561 [PErr e], Print 563 [PErr e]]\<rparr>)"

text \<open>
  The exit codes the docstring of the module documents: 0 for success, and one code for
  the failure of each phase.
\<close>

datatype phase =
    SpecificationAnalysis
  | ComponentCreation
  | Development
  | ContractValidation
  | IntegrationTests
  | CompletionVerification

fun documented_exit_code :: "phase \<Rightarrow> int" where
  "documented_exit_code SpecificationAnalysis = 1"
| "documented_exit_code ComponentCreation = 2"
| "documented_exit_code Development = 3"
| "documented_exit_code ContractValidation = 4"
| "documented_exit_code IntegrationTests = 5"
| "documented_exit_code CompletionVerification = 6"

subsection \<open>Reading a run\<close>

text \<open>The level indices phase 4 announced (line 448), in the order it printed them.\<close>

definition announced_level :: "msg \<Rightarrow> int list" where
  "announced_level m =
     (case m of
        Print line (PInt i # rest) \<Rightarrow> if line = 448 then [i] else []
      | _ \<Rightarrow> [])"

definition levels_announced :: "msg list \<Rightarrow> int list" where
  "levels_announced out = concat (map announced_level out)"

text \<open>
  Lines 441 and 442 of \<^verbatim>\<open>phase_4_parallel_development\<close> on their own: the
  configuration is read and \<^verbatim>\<open>config["orchestration"]["max_parallel_agents"]\<close> is
  looked up.
\<close>

definition config_lookup :: "json action" where
  "config_lookup =
     bind read_config (\<lambda>config.
     bind (lift (getitem config ''orchestration'')) (\<lambda>orchestration.
       lift (getitem orchestration ''max_parallel_agents'')))"

subsection \<open>Some filesystems\<close>

text \<open>A configuration file that holds nothing but the limit.\<close>

definition config_with :: "json \<Rightarrow> config_file" where
  "config_with v =
     Json (JObj [(codes ''orchestration'', JObj [(codes ''max_parallel_agents'', v)])])"

text \<open>
  A project tree in which the directory of every component exists, with a configuration
  that sets the limit to 3; and a tree that has the project root only.
\<close>

definition prepared_fs :: filesystem where
  "prepared_fs =
     \<lparr>dirs = {[], [''home''], [''home'', ''user''], PROJECT_ROOT, PROJECT_ROOT @ [''components'']}
               \<union> (\<lambda>(name, info). PROJECT_ROOT @ [''components'', name]) ` set COMPONENTS,
      files = Map.empty,
      config_json = config_with (JInt 3)\<rparr>"

definition bare_fs :: filesystem where
  "bare_fs =
     \<lparr>dirs = {[], [''home''], [''home'', ''user''], PROJECT_ROOT},
      files = Map.empty,
      config_json = config_with (JInt 3)\<rparr>"


section \<open>Notions the proofs use\<close>

text \<open>
  The statements of \<^verbatim>\<open>phase_4_parallel_development\<close> that follow the lookup of
  \<^verbatim>\<open>max_parallel\<close> (lines 444 to 466).
\<close>

definition phase_4_rest :: "json \<Rightarrow> unit action" where
  "phase_4_rest max_parallel =
     block [
       py_print 444 [PJson max_parallel],
       py_print 445 [PInt (int (length BUILD_ORDER))],
       build_levels max_parallel 0 None BUILD_ORDER,
       py_print 464 [], py_print 465 [], py_print 466 []]"

text \<open>
  What phases 5 and 6 and the end of the \<^verbatim>\<open>try\<close> block print, one after the other.
\<close>

definition closing :: "msg list" where
  "closing =
     map (\<lambda>line. Print line [])
       [471, 472, 473, 475, 476, 477, 478, 479, 481, 482, 483, 484, 485, 487,
        492, 493, 494, 496, 497, 498, 499, 500, 501, 502, 504, 505, 506, 507, 508, 509, 511,
        544, 545, 546, 547, 548, 549, 550, 551, 552, 553, 554, 555, 556]"

text \<open>
  A statement that leaves the configuration file alone and announces no level.
\<close>

definition silent :: "unit action \<Rightarrow> bool" where
  "silent a = (\<forall>fs. config_json (fst (snd (a fs))) = config_json fs \<and>
                    levels_announced (snd (snd (a fs))) = [])"

text \<open>The two files the module writes for a component.\<close>

definition claude_md_path :: "string \<Rightarrow> path" where
  "claude_md_path name = PROJECT_ROOT @ [''components''] @ [name] @ [''CLAUDE.md'']"

definition contract_path :: "string \<Rightarrow> path" where
  "contract_path name = PROJECT_ROOT @ [''contracts''] @ [name @ ''.yaml'']"

definition put_claude_md :: "(path \<rightharpoonup> doc) \<Rightarrow> string \<times> component_info \<Rightarrow> (path \<rightharpoonup> doc)" where
  "put_claude_md m c = m(claude_md_path (fst c) \<mapsto> generate_claude_md (fst c) (snd c))"

definition put_contract :: "(path \<rightharpoonup> doc) \<Rightarrow> string \<times> component_info \<Rightarrow> (path \<rightharpoonup> doc)" where
  "put_contract m c = m(contract_path (fst c) \<mapsto> contract_content (fst c) (snd c))"

text \<open>
  A filesystem on which every write of phases 2 and 3 goes through: the project root and
  the directory of each component exist, \<^verbatim>\<open>contracts\<close> is not a regular file, and no
  file that is to be written is a directory. \<open>scaffolded\<close> is the filesystem the two
  phases then leave.
\<close>

definition ready :: "filesystem \<Rightarrow> bool" where
  "ready fs =
     (PROJECT_ROOT \<in> dirs fs \<and>
      PROJECT_ROOT @ [''contracts''] \<notin> dom (files fs) \<and>
      (\<forall>(name, info) \<in> set COMPONENTS.
         PROJECT_ROOT @ [''components'', name] \<in> dirs fs \<and>
         claude_md_path name \<notin> dirs fs \<and>
         contract_path name \<notin> dirs fs))"

definition scaffolded :: "filesystem \<Rightarrow> filesystem" where
  "scaffolded fs =
     fs\<lparr>dirs := insert (PROJECT_ROOT @ [''contracts'']) (dirs fs),
        files := foldl put_contract (foldl put_claude_md (files fs) COMPONENTS) COMPONENTS\<rparr>"

section \<open>Facts about the table\<close>

lemma distinct_keys: "distinct (map fst COMPONENTS)"
  by (simp add: COMPONENTS_def)

lemma all_derived: "list_all (\<lambda>(n, i). derived_level COMPONENTS i = Some (level i)) COMPONENTS"
  by (simp add: COMPONENTS_def derived_level_def)

lemma max_level_Max:
  "max_level tbl ds = Some m \<Longrightarrow>
     ds \<noteq> [] \<and> (\<forall>d \<in> set ds. \<exists>i. map_of tbl d = Some i) \<and>
     m = Max ((\<lambda>d. level (the (map_of tbl d))) ` set ds)"
proof (induction tbl ds arbitrary: m rule: max_level.induct)
  case (1 tbl)
  then show ?case by simp
next
  case (2 tbl d)
  then show ?case by auto
next
  case (3 tbl d e ds)
  from "3.prems" obtain i m' where
    i: "map_of tbl d = Some i" and m': "max_level tbl (e # ds) = Some m'" and m: "m = max (level i) m'"
    by (auto split: option.splits)
  from "3.IH"[OF m'] have
    ex: "\<forall>x \<in> set (e # ds). \<exists>i. map_of tbl x = Some i" and
    mx: "m' = Max ((\<lambda>d. level (the (map_of tbl d))) ` set (e # ds))"
    by blast+
  have "Max ((\<lambda>d. level (the (map_of tbl d))) ` set (d # e # ds)) = max (level i) m'"
    using i mx by (simp del: max_level.simps)
  with i ex m show ?case by auto
qed

lemma build_order_distinct: "distinct (concat BUILD_ORDER)"
  by (simp add: BUILD_ORDER_def)

lemma build_order_names: "set (concat BUILD_ORDER) = fst ` set COMPONENTS"
  by (simp add: BUILD_ORDER_def COMPONENTS_def insert_commute)

lemma BUILD_ORDER_names:
  "\<forall>lc \<in> set BUILD_ORDER. lc \<noteq> [] \<and> set lc \<subseteq> dom (map_of COMPONENTS)"
  by (simp add: BUILD_ORDER_def COMPONENTS_def dom_def)

lemma set_index_nth:
  "distinct (concat ls) \<Longrightarrow> k < length ls \<Longrightarrow> n \<in> set (ls ! k) \<Longrightarrow> set_index ls n = Some k"
proof (induction ls arbitrary: k)
  case Nil
  then show ?case by simp
next
  case (Cons l ls)
  show ?case
  proof (cases k)
    case 0
    with Cons.prems show ?thesis by simp
  next
    case (Suc k')
    with Cons.prems have k': "k' < length ls" "n \<in> set (ls ! k')" by auto
    then have "n \<in> set (concat ls)" by (auto intro: nth_mem)
    with Cons.prems(1) have "n \<notin> set l" by auto
    moreover from Cons.IH[OF _ k'] Cons.prems(1) have "set_index ls n = Some k'" by simp
    ultimately show ?thesis using Suc by simp
  qed
qed

lemma set_index_Some:
  "set_index ls n = Some k \<Longrightarrow> k < length ls \<and> n \<in> set (ls ! k)"
  by (induction ls arbitrary: k) (auto split: if_splits)

lemma set_index_member:
  "n \<in> set (concat ls) \<Longrightarrow> \<exists>k. set_index ls n = Some k"
  by (induction ls) auto

lemma dependencies_build_earlier:
  "list_all (\<lambda>(a, ia). list_all (\<lambda>b.
      case (set_index BUILD_ORDER a, set_index BUILD_ORDER b) of
        (Some i, Some j) \<Rightarrow> j < i
      | _ \<Rightarrow> False) (dependencies ia)) COMPONENTS"
  by (simp add: COMPONENTS_def BUILD_ORDER_def)

section \<open>Facts about the run\<close>

subsection \<open>The phases that only print\<close>

lemma levels_announced_append:
  "levels_announced (xs @ ys) = levels_announced xs @ levels_announced ys"
  by (simp add: levels_announced_def)

lemma levels_announced_simps:
  "levels_announced [] = []"
  "levels_announced (Print line [] # ms) = levels_announced ms"
  "levels_announced (Print line (PStr x # r) # ms) = levels_announced ms"
  "levels_announced (Print 448 (PInt i # r) # ms) = i # levels_announced ms"
  "line \<noteq> 448 \<Longrightarrow> levels_announced (Print line args # ms) = levels_announced ms"
  by (auto simp: levels_announced_def announced_level_def split: list.splits piece.splits)

lemma print_error_simps:
  "print_error [] = None"
  "print_error (PLit t k # r) = print_error r"
  "print_error (PStr s # r) = print_error r"
  "print_error (PInt i # r) = print_error r"
  "print_error (PPath p # r) = print_error r"
  "print_error (PErr e # r) = print_error r"
  "print_error (PLen d # r) = print_error r"
  "print_error (PJson v # r) = (if printable v then print_error r else Some UnicodeEncodeError)"
  by (simp_all add: print_error_def piece_error_def)

lemma printable_simps:
  "printable JNull" "printable (JBool b)" "printable (JInt i)" "printable (JFloat m e)"
  "printable JNaN" "printable JInfinity" "printable JNegInfinity"
  "printable (JArr vs)" "printable (JObj kvs)"
  "printable (JStr s) \<longleftrightarrow> \<not> list_ex is_surrogate s"
  by (simp_all add: printable_def)

lemma levels_announced_closing: "levels_announced closing = []"
  by (simp add: closing_def levels_announced_simps)

lemma levels_announced_banner: "levels_announced banner = []"
  by (simp add: banner_def levels_announced_simps)

lemma phase_5_total:
  "phase_5_integration_testing fs =
     (Inr (), fs, map (\<lambda>line. Print line [])
        [471, 472, 473, 475, 476, 477, 478, 479, 481, 482, 483, 484, 485, 487])"
  by (simp add: phase_5_integration_testing_def py_print_def print_error_simps)

lemma phase_6_total:
  "phase_6_completion_verification fs =
     (Inr (), fs, map (\<lambda>line. Print line [])
        [492, 493, 494, 496, 497, 498, 499, 500, 501, 502, 504, 505, 506, 507, 508, 509, 511])"
  by (simp add: phase_6_completion_verification_def py_print_def print_error_simps)

subsection \<open>Phase 4\<close>

text \<open>
  Every name of the build order is a key of the table and no level is empty, so the loop
  of phase 4 meets neither of its two exceptions.
\<close>

lemma plan_lines_ok:
  "set lc \<subseteq> dom (map_of COMPONENTS) \<Longrightarrow>
   \<exists>out. for_each lc (\<lambda>c. case map_of COMPONENTS c of
                             None \<Rightarrow> raise (KeyError c)
                           | Some info \<Rightarrow> py_print 456 [PStr c, PStr (description info)]) fs
          = (Inr (), fs, out) \<and> levels_announced out = []"
proof (induction lc)
  case Nil
  then show ?case by (simp add: for_each_def levels_announced_simps)
next
  case (Cons c lc)
  then obtain info where "map_of COMPONENTS c = Some info" by auto
  moreover from Cons obtain out where
    "for_each lc (\<lambda>c. case map_of COMPONENTS c of
                             None \<Rightarrow> raise (KeyError c)
                           | Some info \<Rightarrow> py_print 456 [PStr c, PStr (description info)]) fs
          = (Inr (), fs, out)" "levels_announced out = []" by auto
  ultimately show ?case by (simp add: for_each_def py_print_def print_error_simps levels_announced_simps)
qed

lemma level_plan_ok:
  assumes "lc \<noteq> []" "set lc \<subseteq> dom (map_of COMPONENTS)" "printable mp"
  shows "\<exists>out. level_plan mp idx c lc fs = (Inr (), fs, out) \<and> levels_announced out = [int idx]"
proof -
  from plan_lines_ok[OF assms(2), of fs] obtain out where
    "for_each lc (\<lambda>c. case map_of COMPONENTS c of
                             None \<Rightarrow> raise (KeyError c)
                           | Some info \<Rightarrow> py_print 456 [PStr c, PStr (description info)]) fs
          = (Inr (), fs, out)" "levels_announced out = []" by auto
  with assms(1,3) show ?thesis
    by (simp add: level_plan_def py_print_def print_error_simps levels_announced_append
          levels_announced_simps)
qed

lemma build_levels_ok:
  "\<forall>lc \<in> set ls. lc \<noteq> [] \<and> set lc \<subseteq> dom (map_of COMPONENTS) \<Longrightarrow> printable mp \<Longrightarrow>
   \<exists>out. build_levels mp idx c ls fs = (Inr (), fs, out) \<and>
         levels_announced out = map int [idx ..< idx + length ls]"
proof (induction ls arbitrary: idx c)
  case Nil
  then show ?case by (simp add: return_def lift_def levels_announced_simps)
next
  case (Cons lc ls)
  from Cons.prems have lc: "lc \<noteq> []" "set lc \<subseteq> dom (map_of COMPONENTS)" by auto
  from level_plan_ok[OF lc Cons.prems(2), of idx c fs] obtain o1 where
    o1: "level_plan mp idx c lc fs = (Inr (), fs, o1)" "levels_announced o1 = [int idx]" by auto
  from Cons.IH[of "Suc idx" "Some (last lc)"] Cons.prems obtain o2 where
    o2: "build_levels mp (Suc idx) (Some (last lc)) ls fs = (Inr (), fs, o2)"
        "levels_announced o2 = map int [Suc idx ..< Suc idx + length ls]" by auto
  from o1 o2 lc(1) show ?case
    by (simp add: levels_announced_append upt_conv_Cons del: upt_Suc)
qed

lemma config_lookup_eq:
  "config_lookup fs =
     ((case config_json fs of
         NoFile \<Rightarrow> Inl (FileNotFoundError (PROJECT_ROOT @ [''orchestration'', ''orchestration-config.json'']))
       | NotJson \<Rightarrow> Inl JSONDecodeError
       | Json j \<Rightarrow> (case getitem j ''orchestration'' of
                     Inl e \<Rightarrow> Inl e
                   | Inr orch \<Rightarrow> getitem orch ''max_parallel_agents'')), fs, [])"
  by (simp add: config_lookup_def bind_def read_config_def lift_def raise_def return_def
           split: config_file.splits sum.splits)

lemma bind_lift:
  "bind (lift r) f fs = (case r of Inl e \<Rightarrow> (Inl e, fs, []) | Inr x \<Rightarrow> f x fs)"
  by (simp add: bind_def lift_def split: sum.splits prod.splits)

lemma bind_read_config:
  "bind read_config f fs =
     (case config_json fs of
        NoFile \<Rightarrow> (Inl (FileNotFoundError (PROJECT_ROOT @ [''orchestration'', ''orchestration-config.json''])), fs, [])
      | NotJson \<Rightarrow> (Inl JSONDecodeError, fs, [])
      | Json j \<Rightarrow> f j fs)"
  by (simp add: bind_def read_config_def lift_def raise_def return_def
           split: config_file.splits sum.splits prod.splits)

lemma bind_assoc: "bind (bind m f) g = bind m (\<lambda>x. bind (f x) g)"
  by (rule ext) (simp add: bind_def split: prod.splits sum.splits)

lemma bind_config_lookup:
  "bind config_lookup f =
     bind read_config (\<lambda>config.
     bind (lift (getitem config ''orchestration'')) (\<lambda>orchestration.
     bind (lift (getitem orchestration ''max_parallel_agents'')) f))"
  by (simp add: config_lookup_def bind_assoc)

lemma phase_4_run:
  "phase_4_parallel_development fs =
     (case fst (config_lookup fs) of
        Inl e \<Rightarrow> (Inl e, fs, [Print 437 [], Print 438 [], Print 439 []])
      | Inr mp \<Rightarrow>
          (case phase_4_rest mp fs of
             (r, fs', out) \<Rightarrow> (r, fs', Print 437 [] # Print 438 [] # Print 439 [] # out)))"
proof -
  have eq: "phase_4_parallel_development =
      block [py_print 437 [], py_print 438 [], py_print 439 [], bind config_lookup phase_4_rest]"
    unfolding phase_4_parallel_development_def phase_4_rest_def[abs_def] bind_config_lookup ..
  have "phase_4_parallel_development fs =
      (case bind config_lookup phase_4_rest fs of
         (r, fs', out) \<Rightarrow> (r, fs', Print 437 [] # Print 438 [] # Print 439 [] # out))"
    unfolding eq by (simp add: py_print_def print_error_simps split: sum.splits prod.splits)
  also have "bind config_lookup phase_4_rest fs =
      (case fst (config_lookup fs) of
        Inl e \<Rightarrow> (Inl e, fs, [])
      | Inr mp \<Rightarrow> phase_4_rest mp fs)"
    by (simp add: bind_def config_lookup_eq split: sum.splits prod.splits)
  finally show ?thesis
    by (simp split: sum.splits prod.splits)
qed

lemma phase_4_fails:
  assumes "fst (config_lookup fs) = Inl e"
  shows "phase_4_parallel_development fs = (Inl e, fs, [Print 437 [], Print 438 [], Print 439 []])"
  using assms by (simp add: phase_4_run)

lemma phase_4_unprintable:
  assumes "fst (config_lookup fs) = Inr mp" "\<not> printable mp"
  shows "phase_4_parallel_development fs =
           (Inl UnicodeEncodeError, fs, [Print 437 [], Print 438 [], Print 439 []])"
  using assms by (simp add: phase_4_run phase_4_rest_def py_print_def print_error_simps)

lemma phase_4_succeeds:
  assumes "fst (config_lookup fs) = Inr mp" "printable mp"
  shows "\<exists>out. phase_4_parallel_development fs = (Inr (), fs, out) \<and>
               levels_announced out = [0, 1, 2, 3, 4]"
proof -
  from build_levels_ok[OF BUILD_ORDER_names assms(2), of 0 None fs] obtain o1 where
    o1: "build_levels mp 0 None BUILD_ORDER fs = (Inr (), fs, o1)"
    and "levels_announced o1 = map int [0 ..< 0 + length BUILD_ORDER]" by blast
  then have l: "levels_announced o1 = [0, 1, 2, 3, 4]"
    by (simp add: BUILD_ORDER_def upt_conv_Cons del: upt_Suc)
  from o1 l assms(2) have
    "\<exists>out. phase_4_rest mp fs = (Inr (), fs, out) \<and> levels_announced out = [0, 1, 2, 3, 4]"
    by (simp add: phase_4_rest_def py_print_def print_error_simps levels_announced_simps
          levels_announced_append)
  with assms(1) show ?thesis
    by (auto simp: phase_4_run levels_announced_simps)
qed

subsection \<open>What phases 2 and 3 leave alone\<close>

lemma silent_block: "(\<And>a. a \<in> set as \<Longrightarrow> silent a) \<Longrightarrow> silent (block as)"
proof (induction as)
  case Nil
  then show ?case by (simp add: silent_def fun_eq_iff levels_announced_simps)
next
  case (Cons a as)
  then have a: "silent a" and as: "silent (block as)" by auto
  show ?case
    unfolding silent_def
  proof
    fix fs
    obtain r fs' out where r: "a fs = (r, fs', out)" by (cases "a fs")
    obtain r2 fs2 out2 where r2: "block as fs' = (r2, fs2, out2)" by (cases "block as fs'")
    from a r have 1: "config_json fs' = config_json fs" "levels_announced out = []"
      by (auto simp: silent_def dest: spec[where x = fs])
    from as r2 have 2: "config_json fs2 = config_json fs'" "levels_announced out2 = []"
      by (auto simp: silent_def dest: spec[where x = fs'])
    from r r2 1 2
    show "config_json (fst (snd (block (a # as) fs))) = config_json fs \<and>
          levels_announced (snd (snd (block (a # as) fs))) = []"
      by (cases r) (simp_all add: levels_announced_append)
  qed
qed

lemma silent_print: "line \<noteq> 448 \<Longrightarrow> silent (py_print line args)"
  by (simp add: silent_def py_print_def levels_announced_simps split: option.splits)

lemma silent_write_text: "silent (write_text p d)"
  by (simp add: silent_def write_text_def raise_def lift_def levels_announced_simps)

lemma silent_mkdir: "silent (mkdir_exist_ok p)"
  by (simp add: silent_def mkdir_exist_ok_def raise_def lift_def levels_announced_simps)

lemma silent_create: "silent (create_component_structure n i)"
  unfolding create_component_structure_def Let_def
  by (rule silent_block) (auto simp: silent_print silent_write_text)

lemma silent_phase_2: "silent phase_2_component_creation"
  unfolding phase_2_component_creation_def for_each_def
  by (rule silent_block) (auto simp: silent_print silent_create intro!: silent_block)

lemma silent_write_contract: "silent (write_contract d n i)"
  unfolding write_contract_def Let_def
  by (rule silent_block) (auto simp: silent_print silent_write_text)

lemma silent_phase_3: "silent phase_3_contracts"
  unfolding phase_3_contracts_def for_each_def Let_def
  by (rule silent_block) (auto simp: silent_print silent_mkdir silent_write_contract intro!: silent_block)

lemma silent_phases_2_3: "silent (block [phase_2_component_creation, phase_3_contracts])"
  by (rule silent_block) (auto simp: silent_phase_2 silent_phase_3)

subsection \<open>The exit code\<close>

lemma try_body_run:
  "try_body fs =
     (case block [phase_2_component_creation, phase_3_contracts] fs of
        (Inl e, fs', out) \<Rightarrow> (Inl e, fs', Print 527 [] # out)
      | (Inr u, fs', out) \<Rightarrow>
          (case phase_4_parallel_development fs' of
             (Inl e, fs'', out') \<Rightarrow> (Inl e, fs'', Print 527 [] # out @ out')
           | (Inr u', fs'', out') \<Rightarrow> (Inr (), fs'', Print 527 [] # out @ out' @ closing)))"
  by (simp add: try_body_def phase_5_total phase_6_total py_print_def print_error_simps closing_def
           split: prod.splits sum.splits)

lemma main_exit_code:
  "exit_code (main fs) = (case fst (try_body fs) of Inl e \<Rightarrow> 1 | Inr u \<Rightarrow> 0)"
  by (simp add: main_def split: prod.splits sum.splits)

lemma main_0_or_1: "exit_code (main fs) = 0 \<or> exit_code (main fs) = 1"
  by (simp add: main_exit_code split: sum.splits)

lemma main_early_failure:
  assumes "block [phase_2_component_creation, phase_3_contracts] fs = (Inl e, fs', out)"
  shows "main fs = \<lparr>exit_code = 1, final_fs = fs', stdout = banner @ Print 527 [] # out,
                    stderr = [Print 561 [PErr e], Print 563 [PErr e]]\<rparr>"
  using assms by (simp add: main_def try_body_run)

lemma main_config_failure:
  assumes p: "block [phase_2_component_creation, phase_3_contracts] fs = (Inr (), fs', out)"
    and c: "fst (config_lookup fs) = Inl e"
  shows "main fs = \<lparr>exit_code = 1, final_fs = fs',
                    stdout = banner @ Print 527 [] # out @ [Print 437 [], Print 438 [], Print 439 []],
                    stderr = [Print 561 [PErr e], Print 563 [PErr e]]\<rparr>"
    and "levels_announced (stdout (main fs)) = []"
proof -
  from silent_phases_2_3 p have k: "config_json fs' = config_json fs" "levels_announced out = []"
    by (auto simp: silent_def dest: spec[where x = fs])
  with c have "fst (config_lookup fs') = Inl e" by (simp add: config_lookup_eq)
  then have "phase_4_parallel_development fs' = (Inl e, fs', [Print 437 [], Print 438 [], Print 439 []])"
    by (rule phase_4_fails)
  with p show m: "main fs = \<lparr>exit_code = 1, final_fs = fs',
                    stdout = banner @ Print 527 [] # out @ [Print 437 [], Print 438 [], Print 439 []],
                    stderr = [Print 561 [PErr e], Print 563 [PErr e]]\<rparr>"
    by (simp add: main_def try_body_run)
  show "levels_announced (stdout (main fs)) = []"
    by (simp add: m levels_announced_append levels_announced_banner levels_announced_simps k)
qed

lemma main_unprintable:
  assumes p: "block [phase_2_component_creation, phase_3_contracts] fs = (Inr (), fs', out)"
    and c: "fst (config_lookup fs) = Inr mp" and u: "\<not> printable mp"
  shows "main fs = \<lparr>exit_code = 1, final_fs = fs',
                    stdout = banner @ Print 527 [] # out @ [Print 437 [], Print 438 [], Print 439 []],
                    stderr = [Print 561 [PErr UnicodeEncodeError], Print 563 [PErr UnicodeEncodeError]]\<rparr>"
    and "levels_announced (stdout (main fs)) = []"
proof -
  from silent_phases_2_3 p have k: "config_json fs' = config_json fs" "levels_announced out = []"
    by (auto simp: silent_def dest: spec[where x = fs])
  with c have "fst (config_lookup fs') = Inr mp" by (simp add: config_lookup_eq)
  from phase_4_unprintable[OF this u] p
  show m: "main fs = \<lparr>exit_code = 1, final_fs = fs',
                    stdout = banner @ Print 527 [] # out @ [Print 437 [], Print 438 [], Print 439 []],
                    stderr = [Print 561 [PErr UnicodeEncodeError], Print 563 [PErr UnicodeEncodeError]]\<rparr>"
    by (simp add: main_def try_body_run)
  show "levels_announced (stdout (main fs)) = []"
    by (simp add: m levels_announced_append levels_announced_banner levels_announced_simps k)
qed

lemma main_success:
  assumes p: "block [phase_2_component_creation, phase_3_contracts] fs = (Inr (), fs', out)"
    and c: "fst (config_lookup fs) = Inr mp" and pr: "printable mp"
  shows "exit_code (main fs) = 0" and "final_fs (main fs) = fs'" and "stderr (main fs) = []"
    and "levels_announced (stdout (main fs)) = [0, 1, 2, 3, 4]"
proof -
  from silent_phases_2_3 p have k: "config_json fs' = config_json fs" "levels_announced out = []"
    by (auto simp: silent_def dest: spec[where x = fs])
  with c have "fst (config_lookup fs') = Inr mp" by (simp add: config_lookup_eq)
  from phase_4_succeeds[OF this pr] obtain o4 where
    o4: "phase_4_parallel_development fs' = (Inr (), fs', o4)" "levels_announced o4 = [0, 1, 2, 3, 4]"
    by blast
  with p have m: "main fs = \<lparr>exit_code = 0, final_fs = fs',
                    stdout = banner @ Print 527 [] # out @ o4 @ closing, stderr = []\<rparr>"
    by (simp add: main_def try_body_run)
  show "exit_code (main fs) = 0" "final_fs (main fs) = fs'" "stderr (main fs) = []"
    by (simp_all add: m)
  show "levels_announced (stdout (main fs)) = [0, 1, 2, 3, 4]"
    by (simp add: m levels_announced_append levels_announced_banner levels_announced_simps k o4
          levels_announced_closing)
qed

lemma main_fails_without_config:
  assumes "fst (config_lookup fs) = Inl e"
  shows "exit_code (main fs) = 1"
proof -
  obtain r fs' out where p: "block [phase_2_component_creation, phase_3_contracts] fs = (r, fs', out)"
    by (cases "block [phase_2_component_creation, phase_3_contracts] fs")
  show ?thesis
  proof (cases r)
    case (Inl e')
    with p show ?thesis by (simp add: main_early_failure)
  next
    case (Inr u)
    with p assms show ?thesis by (simp add: main_config_failure(1))
  qed
qed

lemma main_after_phase_4:
  assumes "fst (block [phase_2_component_creation, phase_3_contracts, phase_4_parallel_development] fs) = Inr ()"
  shows "exit_code (main fs) = 0"
proof -
  obtain r2 fs2 o2 where p2: "phase_2_component_creation fs = (r2, fs2, o2)"
    by (cases "phase_2_component_creation fs")
  obtain r3 fs3 o3 where p3: "phase_3_contracts fs2 = (r3, fs3, o3)"
    by (cases "phase_3_contracts fs2")
  obtain r4 fs4 o4 where p4: "phase_4_parallel_development fs3 = (r4, fs4, o4)"
    by (cases "phase_4_parallel_development fs3")
  from assms p2 have r2: "r2 = Inr ()" by (cases r2) simp_all
  from assms p2 p3 r2 have r3: "r3 = Inr ()" by (cases r3) simp_all
  from assms p2 p3 p4 r2 r3 have r4: "r4 = Inr ()" by (cases r4) simp_all
  from p2 p3 r2 r3 have "block [phase_2_component_creation, phase_3_contracts] fs = (Inr (), fs3, o2 @ o3)"
    by simp
  with p4 r4 show ?thesis
    by (simp add: main_exit_code try_body_run)
qed

subsection \<open>Phases 2 and 3 on a prepared tree\<close>

lemma write_text_ok:
  "butlast p \<in> dirs fs \<Longrightarrow> p \<notin> dirs fs \<Longrightarrow>
   write_text p d fs = (Inr (), fs\<lparr>files := (files fs)(p \<mapsto> d)\<rparr>, [])"
  by (simp add: write_text_def)

lemma create_ok:
  assumes "PROJECT_ROOT @ [''components'', n] \<in> dirs fs" "claude_md_path n \<notin> dirs fs"
  shows "create_component_structure n i fs =
           (Inr (), fs\<lparr>files := (files fs)(claude_md_path n \<mapsto> generate_claude_md n i)\<rparr>,
            [Print 363 [PStr n], Print 372 [PLen (generate_claude_md n i)]])"
proof -
  have "butlast (claude_md_path n) = PROJECT_ROOT @ [''components'', n]"
    by (simp add: claude_md_path_def butlast_append)
  with assms have "write_text (claude_md_path n) (generate_claude_md n i) fs =
      (Inr (), fs\<lparr>files := (files fs)(claude_md_path n \<mapsto> generate_claude_md n i)\<rparr>, [])"
    by (simp add: write_text_ok)
  then show ?thesis
    by (simp add: create_component_structure_def Let_def py_print_def print_error_simps claude_md_path_def)
qed

lemma scaffold_loop:
  assumes "\<forall>(n, i) \<in> set cs. PROJECT_ROOT @ [''components'', n] \<in> dirs fs \<and> claude_md_path n \<notin> dirs fs"
  shows "\<exists>out. for_each cs (\<lambda>(n, i). create_component_structure n i) fs =
           (Inr (),
            fs\<lparr>files := foldl put_claude_md (files fs) cs\<rparr>,
            out)"
  using assms
proof (induction cs arbitrary: fs)
  case Nil
  then show ?case by (simp add: for_each_def)
next
  case (Cons c cs)
  obtain n i where c: "c = (n, i)" by (cases c)
  let ?fs1 = "fs\<lparr>files := (files fs)(claude_md_path n \<mapsto> generate_claude_md n i)\<rparr>"
  from Cons.prems c have 1: "create_component_structure n i fs =
      (Inr (), ?fs1, [Print 363 [PStr n], Print 372 [PLen (generate_claude_md n i)]])"
    by (auto intro: create_ok)
  from Cons.prems have "\<forall>(n, i) \<in> set cs.
      PROJECT_ROOT @ [''components'', n] \<in> dirs ?fs1 \<and> claude_md_path n \<notin> dirs ?fs1"
    by auto
  from Cons.IH[OF this] obtain out where
    "for_each cs (\<lambda>(n, i). create_component_structure n i) ?fs1 =
       (Inr (),
        ?fs1\<lparr>files := foldl put_claude_md (files ?fs1) cs\<rparr>,
        out)" by blast
  moreover have "foldl put_claude_md (files fs) (c # cs) = foldl put_claude_md (files ?fs1) cs"
    using c by (simp add: put_claude_md_def)
  ultimately show ?case using 1 c by (simp add: for_each_def del: foldl_Cons)
qed

lemma write_contract_ok:
  assumes "PROJECT_ROOT @ [''contracts''] \<in> dirs fs" "contract_path n \<notin> dirs fs"
  shows "write_contract (PROJECT_ROOT @ [''contracts'']) n i fs =
           (Inr (), fs\<lparr>files := (files fs)(contract_path n \<mapsto> contract_content n i)\<rparr>,
            [Print 424 [PStr n]])"
proof -
  have "butlast (contract_path n) = PROJECT_ROOT @ [''contracts'']"
    by (simp add: contract_path_def butlast_append)
  with assms have "write_text (contract_path n) (contract_content n i) fs =
      (Inr (), fs\<lparr>files := (files fs)(contract_path n \<mapsto> contract_content n i)\<rparr>, [])"
    by (simp add: write_text_ok)
  then show ?thesis
    by (simp add: write_contract_def Let_def py_print_def print_error_simps contract_path_def)
qed

lemma contracts_loop:
  assumes "PROJECT_ROOT @ [''contracts''] \<in> dirs fs"
          "\<forall>(n, i) \<in> set cs. contract_path n \<notin> dirs fs"
  shows "\<exists>out. for_each cs (\<lambda>(n, i). write_contract (PROJECT_ROOT @ [''contracts'']) n i) fs =
           (Inr (), fs\<lparr>files := foldl put_contract (files fs) cs\<rparr>, out)"
  using assms
proof (induction cs arbitrary: fs)
  case Nil
  then show ?case by (simp add: for_each_def)
next
  case (Cons c cs)
  obtain n i where c: "c = (n, i)" by (cases c)
  let ?fs1 = "fs\<lparr>files := (files fs)(contract_path n \<mapsto> contract_content n i)\<rparr>"
  from Cons.prems c have 1: "write_contract (PROJECT_ROOT @ [''contracts'']) n i fs =
      (Inr (), ?fs1, [Print 424 [PStr n]])"
    by (auto intro: write_contract_ok)
  from Cons.prems have "PROJECT_ROOT @ [''contracts''] \<in> dirs ?fs1"
      "\<forall>(n, i) \<in> set cs. contract_path n \<notin> dirs ?fs1"
    by auto
  from Cons.IH[OF this] obtain out where
    "for_each cs (\<lambda>(n, i). write_contract (PROJECT_ROOT @ [''contracts'']) n i) ?fs1 =
       (Inr (), ?fs1\<lparr>files := foldl put_contract (files ?fs1) cs\<rparr>, out)" by blast
  moreover have "foldl put_contract (files fs) (c # cs) = foldl put_contract (files ?fs1) cs"
    using c by (simp add: put_contract_def)
  ultimately show ?case using 1 c by (simp add: for_each_def del: foldl_Cons)
qed

lemma contract_not_component:
  "contract_path n \<noteq> PROJECT_ROOT @ [''contracts'']"
  by (simp add: contract_path_def)

lemma phases_2_3_ok:
  assumes "ready fs"
  shows "\<exists>out. block [phase_2_component_creation, phase_3_contracts] fs = (Inr (), scaffolded fs, out)"
proof -
  let ?fs2 = "fs\<lparr>files := foldl put_claude_md (files fs) COMPONENTS\<rparr>"
  let ?fs2' = "?fs2\<lparr>dirs := insert (PROJECT_ROOT @ [''contracts'']) (dirs fs)\<rparr>"
  from assms have "\<forall>(n, i) \<in> set COMPONENTS.
      PROJECT_ROOT @ [''components'', n] \<in> dirs fs \<and> claude_md_path n \<notin> dirs fs"
    by (auto simp: ready_def)
  from scaffold_loop[OF this] obtain o2 where
    l2: "for_each COMPONENTS (\<lambda>(n, i). create_component_structure n i) fs = (Inr (), ?fs2, o2)"
    by blast
  then have p2: "phase_2_component_creation fs =
      (Inr (), ?fs2, Print 377 [] # Print 378 [] # Print 379 [] # o2 @
         [Print 384 [PInt (int (length COMPONENTS))], Print 385 []])"
    by (simp add: phase_2_component_creation_def py_print_def print_error_simps)
  have dom2: "PROJECT_ROOT @ [''contracts''] \<notin> dom (files ?fs2)"
  proof -
    have "\<And>m cs. PROJECT_ROOT @ [''contracts''] \<notin> dom m \<Longrightarrow>
         PROJECT_ROOT @ [''contracts''] \<notin> dom (foldl put_claude_md m cs)"
      subgoal for m cs
        by (induction cs arbitrary: m) (auto simp: put_claude_md_def claude_md_path_def)
      done
    with assms show ?thesis by (simp add: ready_def)
  qed
  from assms have root: "butlast (PROJECT_ROOT @ [''contracts'']) \<in> dirs ?fs2"
    by (simp add: ready_def butlast_append)
  from root dom2 have mk: "\<exists>fsm. mkdir_exist_ok (PROJECT_ROOT @ [''contracts'']) ?fs2 = (Inr (), fsm, []) \<and>
      dirs fsm = insert (PROJECT_ROOT @ [''contracts'']) (dirs fs) \<and> files fsm = files ?fs2 \<and>
      config_json fsm = config_json fs"
    by (auto simp: mkdir_exist_ok_def insert_absorb)
  then obtain fsm where
    mk1: "mkdir_exist_ok (PROJECT_ROOT @ [''contracts'']) ?fs2 = (Inr (), fsm, [])" and
    mk2: "dirs fsm = insert (PROJECT_ROOT @ [''contracts'']) (dirs fs)" "files fsm = files ?fs2"
         "config_json fsm = config_json fs" by blast
  from mk2 have fsm: "fsm = ?fs2'" by simp
  from assms have "PROJECT_ROOT @ [''contracts''] \<in> dirs ?fs2'"
      "\<forall>(n, i) \<in> set COMPONENTS. contract_path n \<notin> dirs ?fs2'"
    by (auto simp: ready_def contract_not_component)
  from contracts_loop[OF this] obtain o3 where
    l3: "for_each COMPONENTS (\<lambda>(n, i). write_contract (PROJECT_ROOT @ [''contracts'']) n i) ?fs2' =
       (Inr (), ?fs2'\<lparr>files := foldl put_contract (files ?fs2') COMPONENTS\<rparr>, o3)" by blast
  have "?fs2'\<lparr>files := foldl put_contract (files ?fs2') COMPONENTS\<rparr> = scaffolded fs"
    by (simp add: scaffolded_def)
  with l3 mk1 fsm have p3: "phase_3_contracts ?fs2 =
      (Inr (), scaffolded fs, Print 390 [] # Print 391 [] # Print 392 [] # o3 @
         [Print 426 [PInt (int (length COMPONENTS))], Print 427 []])"
    by (simp add: phase_3_contracts_def Let_def py_print_def print_error_simps)
  from p2 p3 show ?thesis by simp
qed

lemma ready_prepared: "ready (prepared_fs\<lparr>config_json := c\<rparr>)"
  by (auto simp: ready_def prepared_fs_def claude_md_path_def contract_path_def PROJECT_ROOT_def)

lemma config_lookup_config_with:
  "fst (config_lookup (fs\<lparr>config_json := config_with v\<rparr>)) = Inr v"
  by (simp add: config_lookup_eq config_with_def)

lemma config_lookup_NoFile:
  "fst (config_lookup (fs\<lparr>config_json := NoFile\<rparr>)) =
     Inl (FileNotFoundError (PROJECT_ROOT @ [''orchestration'', ''orchestration-config.json'']))"
  by (simp add: config_lookup_eq)

lemma prepared_config: "prepared_fs\<lparr>config_json := config_with (JInt 3)\<rparr> = prepared_fs"
  by (simp add: prepared_fs_def)

lemma scaffolded_cdp_types:
  "files (scaffolded fs) (PROJECT_ROOT @ [''components'', ''cdp_types'', ''CLAUDE.md'']) =
     map_option (generate_claude_md ''cdp_types'') (map_of COMPONENTS ''cdp_types'')"
  by (simp add: scaffolded_def COMPONENTS_def put_contract_def put_claude_md_def
        claude_md_path_def contract_path_def)

lemma bare_fails:
  "phase_2_component_creation bare_fs =
     (Inl (FileNotFoundError (PROJECT_ROOT @ [''components'', ''cdp_types'', ''CLAUDE.md''])),
      bare_fs,
      [Print 377 [], Print 378 [], Print 379 [], Print 363 [PStr ''cdp_types'']])"
  by (simp add: phase_2_component_creation_def for_each_def COMPONENTS_def
        create_component_structure_def py_print_def print_error_simps write_text_def bare_fs_def PROJECT_ROOT_def
        raise_def lift_def Let_def)

lemma prepared_run:
  "\<exists>out. block [phase_2_component_creation, phase_3_contracts] (prepared_fs\<lparr>config_json := c\<rparr>)
           = (Inr (), scaffolded (prepared_fs\<lparr>config_json := c\<rparr>), out)"
  by (rule phases_2_3_ok) (rule ready_prepared)

lemma config_lookup_prepared: "fst (config_lookup prepared_fs) = Inr (JInt 3)"
  by (simp add: config_lookup_eq prepared_fs_def config_with_def)

lemma write_text_fails:
  "\<not> (butlast p \<in> dirs fs \<and> p \<notin> dirs fs) \<Longrightarrow> \<exists>e. write_text p d fs = (Inl e, fs, [])"
  by (auto simp: write_text_def raise_def lift_def)

lemma write_text_again:
  "butlast p \<in> dirs fs \<Longrightarrow> p \<notin> dirs fs \<Longrightarrow>
   write_text p d (fs\<lparr>files := (files fs)(p \<mapsto> d)\<rparr>) = (Inr (), fs\<lparr>files := (files fs)(p \<mapsto> d)\<rparr>, [])"
  by (simp add: write_text_def)

subsection \<open>Every run\<close>


lemma main_levels:
  "levels_announced (stdout (main fs)) = [] \<or> levels_announced (stdout (main fs)) = [0, 1, 2, 3, 4]"
proof -
  obtain r fs' out where p: "block [phase_2_component_creation, phase_3_contracts] fs = (r, fs', out)"
    by (cases "block [phase_2_component_creation, phase_3_contracts] fs")
  from silent_phases_2_3 p have k: "levels_announced out = []"
    by (auto simp: silent_def dest: spec[where x = fs])
  show ?thesis
  proof (cases r)
    case (Inl e)
    with p k show ?thesis
      by (simp add: main_early_failure levels_announced_append levels_announced_banner
            levels_announced_simps)
  next
    case (Inr u)
    with p have p': "block [phase_2_component_creation, phase_3_contracts] fs = (Inr (), fs', out)"
      by simp
    show ?thesis
    proof (cases "fst (config_lookup fs)")
      case (Inl e)
      from main_config_failure(2)[OF p' this] show ?thesis by simp
    next
      case (Inr mp)
      show ?thesis
      proof (cases "printable mp")
        case True
        from main_success(4)[OF p' Inr True] show ?thesis by simp
      next
        case False
        from main_unprintable(2)[OF p' Inr False] show ?thesis by simp
      qed
    qed
  qed
qed

lemma main_never_2_to_6: "exit_code (main fs) \<notin> {2, 3, 4, 5, 6}"
  using main_0_or_1[of fs] by auto

section \<open>The claims\<close>

subsection \<open>C1: the exit code of a failed phase\<close>

text \<open>
  Claim C1 says that a failing phase gives the process the exit code of that phase, 2 for
  component creation. The docstring of the module lists the same codes. \<^verbatim>\<open>main\<close>
  returns 1 for every exception, whatever phase raised it, and 0 otherwise. On a tree
  that has the project root but no component directory, phase 2 raises at its first write
  and the exit code is 1, not the documented 2.
\<close>

theorem scaffold_failure_exits_with_1:
  "fst (phase_2_component_creation bare_fs) =
     Inl (FileNotFoundError (PROJECT_ROOT @ [''components'', ''cdp_types'', ''CLAUDE.md'']))
   \<and> exit_code (main bare_fs) = 1
   \<and> exit_code (main bare_fs) \<noteq> documented_exit_code ComponentCreation
   \<and> (\<forall>fs. exit_code (main fs) = 0 \<or> exit_code (main fs) = 1)"
proof -
  have "exit_code (main bare_fs) = 1"
    by (simp add: bare_fails main_exit_code try_body_run)
  then show ?thesis
    using main_0_or_1 by (simp add: bare_fails)
qed

text \<open>The code the docstring gives to this failure is not the one returned.\<close>

theorem scaffold_failure_witness: "exit_code (main bare_fs) \<noteq> 2"
  using scaffold_failure_exits_with_1 by simp

subsection \<open>C2: when the configuration is read\<close>

text \<open>
  Claim C2, as amended. The configuration is read once, by phase 4, after phases 2 and 3
  have done their writes. When those two phases succeed and the configuration file is
  missing, is not JSON, or has no \<^verbatim>\<open>orchestration.max_parallel_agents\<close>, the run fails:
  the exit code is not 0, the exception is reported on the error stream, the filesystem is
  the one phases 2 and 3 left, and phase 4 has announced no level. The value found is not
  validated: with any integer, a non-positive one included, and with any other value that
  can be printed, the run succeeds.
\<close>

theorem configuration_read_in_phase_4:
  assumes "block [phase_2_component_creation, phase_3_contracts] fs = (Inr (), fs', out)"
  shows "fst (config_lookup fs) =
           (case config_json fs of
              NoFile \<Rightarrow> Inl (FileNotFoundError (PROJECT_ROOT @ [''orchestration'', ''orchestration-config.json'']))
            | NotJson \<Rightarrow> Inl JSONDecodeError
            | Json j \<Rightarrow> (case getitem j ''orchestration'' of
                          Inl e \<Rightarrow> Inl e
                        | Inr orch \<Rightarrow> getitem orch ''max_parallel_agents''))
       \<and> (\<forall>e. fst (config_lookup fs) = Inl e \<longrightarrow>
              exit_code (main fs) \<noteq> 0 \<and> final_fs (main fs) = fs' \<and>
              stderr (main fs) = [Print 561 [PErr e], Print 563 [PErr e]] \<and>
              levels_announced (stdout (main fs)) = [])
       \<and> (\<forall>v. fst (config_lookup fs) = Inr v \<and> printable v \<longrightarrow>
              exit_code (main fs) = 0 \<and> final_fs (main fs) = fs' \<and>
              levels_announced (stdout (main fs)) = [0, 1, 2, 3, 4])
       \<and> (\<forall>n. fst (config_lookup fs) = Inr (JInt n) \<longrightarrow> exit_code (main fs) = 0)"
proof (intro conjI allI impI)
  show "fst (config_lookup fs) =
           (case config_json fs of
              NoFile \<Rightarrow> Inl (FileNotFoundError (PROJECT_ROOT @ [''orchestration'', ''orchestration-config.json'']))
            | NotJson \<Rightarrow> Inl JSONDecodeError
            | Json j \<Rightarrow> (case getitem j ''orchestration'' of
                          Inl e \<Rightarrow> Inl e
                        | Inr orch \<Rightarrow> getitem orch ''max_parallel_agents''))"
    by (simp add: config_lookup_eq)
next
  fix e assume e: "fst (config_lookup fs) = Inl e"
  from main_config_failure[OF assms e]
  show "exit_code (main fs) \<noteq> 0" "final_fs (main fs) = fs'"
       "stderr (main fs) = [Print 561 [PErr e], Print 563 [PErr e]]"
       "levels_announced (stdout (main fs)) = []"
    by simp_all
next
  fix v assume v: "fst (config_lookup fs) = Inr v \<and> printable v"
  then have v1: "fst (config_lookup fs) = Inr v" and v2: "printable v" by simp_all
  from main_success[OF assms v1 v2]
  show "exit_code (main fs) = 0" "final_fs (main fs) = fs'"
       "levels_announced (stdout (main fs)) = [0, 1, 2, 3, 4]"
    by simp_all
next
  fix n assume n: "fst (config_lookup fs) = Inr (JInt n)"
  show "exit_code (main fs) = 0"
    by (rule main_success(1)[OF assms n]) (simp add: printable_simps)
qed

text \<open>
  A missing file on the prepared tree, and on the same tree a limit of -2.
\<close>

theorem configuration_read_in_phase_4_witness:
  "exit_code (main (prepared_fs\<lparr>config_json := NoFile\<rparr>)) \<noteq> 0
   \<and> final_fs (main (prepared_fs\<lparr>config_json := NoFile\<rparr>)) = scaffolded (prepared_fs\<lparr>config_json := NoFile\<rparr>)
   \<and> levels_announced (stdout (main (prepared_fs\<lparr>config_json := NoFile\<rparr>))) = []
   \<and> exit_code (main (prepared_fs\<lparr>config_json := config_with (JInt (- 2))\<rparr>)) = 0"
proof -
  obtain o1 where 1: "block [phase_2_component_creation, phase_3_contracts] (prepared_fs\<lparr>config_json := NoFile\<rparr>)
           = (Inr (), scaffolded (prepared_fs\<lparr>config_json := NoFile\<rparr>), o1)"
    using prepared_run by blast
  obtain o2 where 2: "block [phase_2_component_creation, phase_3_contracts] (prepared_fs\<lparr>config_json := config_with (JInt (- 2))\<rparr>)
           = (Inr (), scaffolded (prepared_fs\<lparr>config_json := config_with (JInt (- 2))\<rparr>), o2)"
    using prepared_run by blast
  from configuration_read_in_phase_4[OF 1] configuration_read_in_phase_4[OF 2]
  show ?thesis
    by (simp add: config_lookup_NoFile config_lookup_config_with printable_simps)
qed

text \<open>
  Claim C2 as stated fails twice. With the limit 0 the run succeeds. With no configuration
  file the run fails only after phase 2 has written \<^verbatim>\<open>CLAUDE.md\<close> for
  \<^verbatim>\<open>cdp_types\<close>, a file the tree did not have.
\<close>

theorem configuration_counterexample:
  "exit_code (main (prepared_fs\<lparr>config_json := config_with (JInt 0)\<rparr>)) = 0
   \<and> exit_code (main (prepared_fs\<lparr>config_json := NoFile\<rparr>)) = 1
   \<and> files (prepared_fs\<lparr>config_json := NoFile\<rparr>)
        (PROJECT_ROOT @ [''components'', ''cdp_types'', ''CLAUDE.md'']) = None
   \<and> files (final_fs (main (prepared_fs\<lparr>config_json := NoFile\<rparr>)))
        (PROJECT_ROOT @ [''components'', ''cdp_types'', ''CLAUDE.md''])
      = map_option (generate_claude_md ''cdp_types'') (map_of COMPONENTS ''cdp_types'')
   \<and> map_of COMPONENTS ''cdp_types'' \<noteq> None"
proof -
  obtain o1 where 1: "block [phase_2_component_creation, phase_3_contracts] (prepared_fs\<lparr>config_json := NoFile\<rparr>)
           = (Inr (), scaffolded (prepared_fs\<lparr>config_json := NoFile\<rparr>), o1)"
    using prepared_run by blast
  obtain o2 where 2: "block [phase_2_component_creation, phase_3_contracts] (prepared_fs\<lparr>config_json := config_with (JInt 0)\<rparr>)
           = (Inr (), scaffolded (prepared_fs\<lparr>config_json := config_with (JInt 0)\<rparr>), o2)"
    using prepared_run by blast
  have a: "exit_code (main (prepared_fs\<lparr>config_json := config_with (JInt 0)\<rparr>)) = 0"
    by (rule main_success(1)[OF 2 config_lookup_config_with]) (simp add: printable_simps)
  have b: "exit_code (main (prepared_fs\<lparr>config_json := NoFile\<rparr>)) = 1"
       "final_fs (main (prepared_fs\<lparr>config_json := NoFile\<rparr>)) = scaffolded (prepared_fs\<lparr>config_json := NoFile\<rparr>)"
    using main_config_failure(1)[OF 1 config_lookup_NoFile] by simp_all
  have c: "files (prepared_fs\<lparr>config_json := NoFile\<rparr>)
        (PROJECT_ROOT @ [''components'', ''cdp_types'', ''CLAUDE.md'']) = None"
    by (simp add: prepared_fs_def)
  have d: "map_of COMPONENTS ''cdp_types'' \<noteq> None" by (simp add: COMPONENTS_def)
  from a b c d show ?thesis by (simp add: scaffolded_cdp_types)
qed

subsection \<open>C3: the levels of the table follow from its dependencies\<close>

text \<open>
  Claim C3. Every entry of \<^verbatim>\<open>COMPONENTS\<close> obeys the derivation rule: an entry with no
  dependency has level 0, an entry with dependencies has level one more than the largest
  level among them, and so every dependency is an entry of the table with a strictly
  smaller level.
\<close>

theorem component_levels_follow_dependencies:
  assumes "(a, ia) \<in> set COMPONENTS"
  shows "(dependencies ia = [] \<longrightarrow> level ia = 0)
       \<and> (dependencies ia \<noteq> [] \<longrightarrow>
            level ia = 1 + Max ((\<lambda>b. level (the (map_of COMPONENTS b))) ` set (dependencies ia)))
       \<and> (\<forall>b \<in> set (dependencies ia). \<exists>ib. map_of COMPONENTS b = Some ib \<and> level ib < level ia)"
proof -
  from assms all_derived have d: "derived_level COMPONENTS ia = Some (level ia)"
    by (auto simp: list_all_iff)
  show ?thesis
  proof (cases "dependencies ia = []")
    case True
    with d show ?thesis by (simp add: derived_level_def)
  next
    case False
    with d obtain m where m: "max_level COMPONENTS (dependencies ia) = Some m" and l: "level ia = 1 + m"
      by (cases "max_level COMPONENTS (dependencies ia)") (simp_all add: derived_level_def)
    from max_level_Max[OF m] have
      ex: "\<forall>b \<in> set (dependencies ia). \<exists>ib. map_of COMPONENTS b = Some ib" and
      mx: "m = Max ((\<lambda>b. level (the (map_of COMPONENTS b))) ` set (dependencies ia))"
      by blast+
    have "\<exists>ib. map_of COMPONENTS b = Some ib \<and> level ib < level ia"
      if b: "b \<in> set (dependencies ia)" for b
    proof -
      from ex b obtain ib where ib: "map_of COMPONENTS b = Some ib" by blast
      have "level (the (map_of COMPONENTS b)) \<le> m"
        unfolding mx using b by (intro Max_ge) auto
      with ib l show ?thesis by simp
    qed
    with False l mx show ?thesis by blast
  qed
qed

text \<open>The rule at \<^verbatim>\<open>dom_domain\<close>, which depends on a level 0 and a level 1 component.\<close>

theorem component_levels_witness:
  "level \<lparr>level = 2, ctype = ''feature'', description = ''DOM and CSS domain implementations'',
           estimated_tokens = 60000, dependencies = [''cdp_types'', ''protocol_handler''],
           tech_stack = ''Rust 2021, DOM bridge integration''\<rparr>
     = 1 + Max ((\<lambda>b. level (the (map_of COMPONENTS b))) ` {''cdp_types'', ''protocol_handler''})
   \<and> (\<exists>ib. map_of COMPONENTS ''protocol_handler'' = Some ib \<and> level ib < 2)"
proof -
  have h: "(''dom_domain'',
           \<lparr>level = 2, ctype = ''feature'', description = ''DOM and CSS domain implementations'',
            estimated_tokens = 60000, dependencies = [''cdp_types'', ''protocol_handler''],
            tech_stack = ''Rust 2021, DOM bridge integration''\<rparr>) \<in> set COMPONENTS"
    by (simp add: COMPONENTS_def)
  from component_levels_follow_dependencies[OF h] show ?thesis by simp
qed

subsection \<open>C4: the build order partitions the components\<close>

text \<open>
  Claim C4. Every component name is in exactly one set of \<^verbatim>\<open>BUILD_ORDER\<close>, two sets
  at different positions share no name, the sets together hold exactly the names of the
  table, and a component stands at a strictly later position than each of its
  dependencies.
\<close>

theorem build_order_partitions_components:
  "(\<forall>n \<in> fst ` set COMPONENTS. \<exists>!k. k < length BUILD_ORDER \<and> n \<in> set (BUILD_ORDER ! k))
   \<and> (\<forall>i j. i < j \<and> j < length BUILD_ORDER \<longrightarrow>
         set (BUILD_ORDER ! i) \<inter> set (BUILD_ORDER ! j) = {})
   \<and> \<Union> (set ` set BUILD_ORDER) = fst ` set COMPONENTS
   \<and> (\<forall>a ia b i j.
         (a, ia) \<in> set COMPONENTS \<and> b \<in> set (dependencies ia) \<and>
         i < length BUILD_ORDER \<and> a \<in> set (BUILD_ORDER ! i) \<and>
         j < length BUILD_ORDER \<and> b \<in> set (BUILD_ORDER ! j) \<longrightarrow> j < i)"
proof (intro conjI ballI allI impI)
  fix n assume "n \<in> fst ` set COMPONENTS"
  then have "n \<in> set (concat BUILD_ORDER)" by (simp only: build_order_names)
  then obtain k where k: "set_index BUILD_ORDER n = Some k" using set_index_member by blast
  show "\<exists>!k. k < length BUILD_ORDER \<and> n \<in> set (BUILD_ORDER ! k)"
  proof
    from set_index_Some[OF k] show "k < length BUILD_ORDER \<and> n \<in> set (BUILD_ORDER ! k)" .
  next
    fix k' assume "k' < length BUILD_ORDER \<and> n \<in> set (BUILD_ORDER ! k')"
    then have "set_index BUILD_ORDER n = Some k'"
      using set_index_nth[OF build_order_distinct] by blast
    with k show "k' = k" by simp
  qed
next
  fix i j assume ij: "i < j \<and> j < length BUILD_ORDER"
  show "set (BUILD_ORDER ! i) \<inter> set (BUILD_ORDER ! j) = {}"
  proof (rule ccontr)
    assume "set (BUILD_ORDER ! i) \<inter> set (BUILD_ORDER ! j) \<noteq> {}"
    then obtain n where "n \<in> set (BUILD_ORDER ! i)" "n \<in> set (BUILD_ORDER ! j)" by blast
    with ij have "set_index BUILD_ORDER n = Some i" "set_index BUILD_ORDER n = Some j"
      using set_index_nth[OF build_order_distinct] by auto
    with ij show False by simp
  qed
next
  show "\<Union> (set ` set BUILD_ORDER) = fst ` set COMPONENTS"
    using build_order_names by simp
next
  fix a ia b i j
  assume h: "(a, ia) \<in> set COMPONENTS \<and> b \<in> set (dependencies ia) \<and>
         i < length BUILD_ORDER \<and> a \<in> set (BUILD_ORDER ! i) \<and>
         j < length BUILD_ORDER \<and> b \<in> set (BUILD_ORDER ! j)"
  then have "set_index BUILD_ORDER a = Some i" "set_index BUILD_ORDER b = Some j"
    using set_index_nth[OF build_order_distinct] by auto
  moreover from h dependencies_build_earlier have
    "case (set_index BUILD_ORDER a, set_index BUILD_ORDER b) of
        (Some i, Some j) \<Rightarrow> j < i | _ \<Rightarrow> False"
    by (auto simp: list_all_iff)
  ultimately show "j < i" by simp
qed

text \<open>\<^verbatim>\<open>dom_domain\<close> has one position, and levels 1 and 2 share no name.\<close>

theorem build_order_partition_witness:
  "(\<exists>!k. k < length BUILD_ORDER \<and> ''dom_domain'' \<in> set (BUILD_ORDER ! k))
   \<and> set (BUILD_ORDER ! 1) \<inter> set (BUILD_ORDER ! 2) = {}"
proof -
  have 1: "''dom_domain'' \<in> fst ` set COMPONENTS" by (simp add: COMPONENTS_def)
  have 2: "(1::nat) < 2 \<and> 2 < length BUILD_ORDER" by (simp add: BUILD_ORDER_def)
  from build_order_partitions_components 1 2 show ?thesis by blast
qed

subsection \<open>C5: the derived grouping is the build order\<close>

text \<open>
  Claim C5. For each level index from 0 to 4, \<^verbatim>\<open>get_components_at_level\<close> returns, in
  the insertion order of the table, exactly the list \<^verbatim>\<open>BUILD_ORDER\<close> holds at that
  index.
\<close>

theorem level_grouping_is_build_order:
  assumes "L \<le> 4"
  shows "get_components_at_level (int L) = BUILD_ORDER ! L"
proof -
  from assms have "L \<in> {0, 1, 2, 3, 4}" by auto
  then show ?thesis
    by (auto simp: BUILD_ORDER_def get_components_at_level_def COMPONENTS_def)
qed

text \<open>Level 2, the six feature components.\<close>

theorem level_grouping_witness:
  "get_components_at_level 2 =
     [''dom_domain'', ''network_domain'', ''runtime_debugger'',
      ''profiler_domains'', ''console_storage'', ''browser_page_domains'']"
proof -
  have "(2::nat) \<le> 4" by simp
  from level_grouping_is_build_order[OF this] show ?thesis by (simp add: BUILD_ORDER_def)
qed

subsection \<open>C6: a component that fails in the Build phase\<close>

text \<open>
  Claim C6 starts from a component of some level that fails during the Build phase. The
  module has no such event: phase 4 starts no worker and records no result of a component,
  it prints the plan of each level. Phase 4 can only fail before level 0 is announced,
  while it reads the configuration or prints the value it found; once a level is
  announced, all five are. The claim has no run of the module to be stated over. What the
  exit code of a failed phase is belongs to C1.
\<close>

lemma build_phase_outcomes:
  "fst (snd (phase_4_parallel_development fs)) = fs
   \<and> (fst (phase_4_parallel_development fs) = Inr () \<longrightarrow>
          levels_announced (snd (snd (phase_4_parallel_development fs))) = [0, 1, 2, 3, 4])
   \<and> (\<forall>e. fst (phase_4_parallel_development fs) = Inl e \<longrightarrow>
          levels_announced (snd (snd (phase_4_parallel_development fs))) = [])"
proof (cases "fst (config_lookup fs)")
  case (Inl e')
  from phase_4_fails[OF Inl] show ?thesis by (simp add: levels_announced_simps)
next
  case (Inr mp)
  show ?thesis
  proof (cases "printable mp")
    case True
    from phase_4_succeeds[OF Inr True] show ?thesis by auto
  next
    case False
    from phase_4_unprintable[OF Inr False] show ?thesis by (simp add: levels_announced_simps)
  qed
qed

subsection \<open>C7: the gate of the Integration phase\<close>

text \<open>
  Claim C7 is about a gate that reads a report of the tests executed and failed. The
  module has neither: \<^verbatim>\<open>phase_5_integration_testing\<close> takes no argument, runs no test
  and reads no report, and by \<open>phase_5_total\<close> it prints the same fourteen lines and
  returns normally on every filesystem. The report of the claim cannot be given to the
  module, so the claim has nothing to be stated over.
\<close>

subsection \<open>C8: the dispatcher\<close>

text \<open>
  Claim C8 bounds the number of component executions that are in flight at one time and
  counts the results a dispatcher returns. The module has no dispatcher: phase 4 is the
  sequential loop of \<open>build_levels\<close>, it starts no execution and returns no result,
  and the limit it reads is only printed. The claim has nothing in the module to be
  stated over. What one level of the loop does is print: a header, the limit as it was
  read, and one line for each component of the level, in the order of the level.
\<close>

lemma plan_lines_output:
  "set lc \<subseteq> dom (map_of COMPONENTS) \<Longrightarrow>
   for_each lc (\<lambda>c. case map_of COMPONENTS c of
                      None \<Rightarrow> raise (KeyError c)
                    | Some info \<Rightarrow> py_print 456 [PStr c, PStr (description info)]) fs
     = (Inr (), fs,
        map (\<lambda>c. Print 456 [PStr c, PStr (description (the (map_of COMPONENTS c)))]) lc)"
proof (induction lc)
  case Nil
  then show ?case by (simp add: for_each_def)
next
  case (Cons c lc)
  then obtain info where "map_of COMPONENTS c = Some info" by auto
  with Cons show ?case by (simp add: for_each_def py_print_def print_error_simps)
qed

lemma level_plan_output:
  assumes "lc \<noteq> []" "set lc \<subseteq> dom (map_of COMPONENTS)" "printable max_parallel"
  shows "level_plan max_parallel idx c lc fs =
     (Inr (), fs,
      [Print 448 [PInt (int idx), PInt (int (length lc))],
       Print 449 [PStr (join '', '' lc)],
       Print 453 [PInt (int (length lc)), PJson max_parallel]]
      @ map (\<lambda>c. Print 456 [PStr c, PStr (description (the (map_of COMPONENTS c)))]) lc
      @ [Print 458 [], Print 459 [PStr (last lc)], Print 460 [], Print 461 [], Print 462 []])"
  using assms plan_lines_output[OF assms(2), of fs]
  by (simp add: level_plan_def py_print_def print_error_simps)

subsection \<open>C9: scaffolding twice\<close>

text \<open>
  Claim C9. Running \<^verbatim>\<open>create_component_structure\<close> a second time, for the same name
  and information, on the filesystem the first run left, leaves that filesystem as it is
  and ends as the first run did. The first run changes nothing but the one file
  \<^verbatim>\<open>components/<name>/CLAUDE.md\<close>, to which a successful run gives the generated text.
\<close>

theorem scaffold_is_idempotent:
  assumes "create_component_structure n i fs = (r, fs1, out1)"
  shows "create_component_structure n i fs1 = (r, fs1, out1)
       \<and> dirs fs1 = dirs fs \<and> config_json fs1 = config_json fs
       \<and> (\<forall>p. p \<noteq> PROJECT_ROOT @ [''components'', n, ''CLAUDE.md''] \<longrightarrow> files fs1 p = files fs p)
       \<and> (case r of
             Inl e \<Rightarrow> fs1 = fs
           | Inr u \<Rightarrow> files fs1 (PROJECT_ROOT @ [''components'', n, ''CLAUDE.md''])
                       = Some (generate_claude_md n i))"
proof -
  let ?p = "PROJECT_ROOT @ [''components'', n, ''CLAUDE.md'']"
  let ?d = "generate_claude_md n i"
  have run: "create_component_structure n i s =
      (case write_text ?p ?d s of
         (Inl e, s', out) \<Rightarrow> (Inl e, s', Print 363 [PStr n] # out)
       | (Inr u, s', out) \<Rightarrow> (Inr (), s', Print 363 [PStr n] # out @ [Print 372 [PLen ?d]]))" for s
    by (simp add: create_component_structure_def Let_def py_print_def print_error_simps split: prod.splits sum.splits)
  show ?thesis
  proof (cases "butlast ?p \<in> dirs fs \<and> ?p \<notin> dirs fs")
    case True
    then have w: "write_text ?p ?d fs = (Inr (), fs\<lparr>files := (files fs)(?p \<mapsto> ?d)\<rparr>, [])"
      by (simp add: write_text_ok)
    with assms have 1: "r = Inr ()" "fs1 = fs\<lparr>files := (files fs)(?p \<mapsto> ?d)\<rparr>"
        "out1 = [Print 363 [PStr n], Print 372 [PLen ?d]]"
      by (simp_all add: run)
    from True have "write_text ?p ?d (fs\<lparr>files := (files fs)(?p \<mapsto> ?d)\<rparr>) =
        (Inr (), fs\<lparr>files := (files fs)(?p \<mapsto> ?d)\<rparr>, [])"
      by (intro write_text_again) blast+
    with 1 have "write_text ?p ?d fs1 = (Inr (), fs1, [])" by simp
    with 1 show ?thesis by (simp add: run)
  next
    case False
    then obtain e where w: "write_text ?p ?d fs = (Inl e, fs, [])"
      using write_text_fails by blast
    with assms have 1: "r = Inl e" "fs1 = fs" "out1 = [Print 363 [PStr n]]"
      by (simp_all add: run)
    with w show ?thesis by (simp add: run)
  qed
qed

text \<open>Scaffolding \<^verbatim>\<open>cdp_types\<close> twice on the prepared tree.\<close>

theorem scaffold_idempotent_witness:
  "\<exists>fs1 out.
     create_component_structure ''cdp_types'' (the (map_of COMPONENTS ''cdp_types'')) prepared_fs
       = (Inr (), fs1, out)
     \<and> create_component_structure ''cdp_types'' (the (map_of COMPONENTS ''cdp_types'')) fs1
       = (Inr (), fs1, out)
     \<and> files prepared_fs (PROJECT_ROOT @ [''components'', ''cdp_types'', ''CLAUDE.md'']) = None
     \<and> files fs1 (PROJECT_ROOT @ [''components'', ''cdp_types'', ''CLAUDE.md''])
       = Some (generate_claude_md ''cdp_types'' (the (map_of COMPONENTS ''cdp_types'')))"
proof -
  let ?i = "the (map_of COMPONENTS ''cdp_types'')"
  have "(''cdp_types'', ?i) \<in> set COMPONENTS" by (simp add: COMPONENTS_def)
  with ready_prepared[of "config_with (JInt 3)"] have
    "PROJECT_ROOT @ [''components'', ''cdp_types''] \<in> dirs prepared_fs"
    "claude_md_path ''cdp_types'' \<notin> dirs prepared_fs"
    by (auto simp: ready_def prepared_config)
  from create_ok[OF this, of ?i] obtain fs1 out where
    1: "create_component_structure ''cdp_types'' ?i prepared_fs = (Inr (), fs1, out)"
    by blast
  have 2: "files prepared_fs (PROJECT_ROOT @ [''components'', ''cdp_types'', ''CLAUDE.md'']) = None"
    by (simp add: prepared_fs_def)
  from scaffold_is_idempotent[OF 1] 1 2 show ?thesis by auto
qed

subsection \<open>C10: where phases 4, 5 and 6 can fail\<close>




end
